theory Spec2Isabelle
  imports Complex_Main "HOL-Library.Sublist"
begin

section \<open>Authority arbitration for a remotely operated vehicle\<close>

text \<open>
  A shallow embedding of \<^verbatim>\<open>authority_rules.py\<close> (the risk classifier and the
  authority rule engine) and of the two token-decoding callbacks of
  \<^verbatim>\<open>mode_arbitrator.py\<close>.

  Modelling decisions, each stated where it is used:
  \<^item> Python \<^verbatim>\<open>float\<close> values (reliabilities, confidence, elapsed seconds, thresholds)
    are \<^typ>\<open>real\<close>: comparisons against the thresholds are the source's comparisons,
    rounding of float arithmetic is not modelled.
  \<^item> A Python \<^verbatim>\<open>str\<close> built by an f-string is a list of pieces; a formatted float
    (\<^verbatim>\<open>{x:.2f}\<close>, \<^verbatim>\<open>{x:.0%}\<close>) stays a symbolic piece holding the number.
  \<^item> Exceptions are values: every function of the source that can raise returns
    \<open>error + 'a\<close>.
\<close>

subsection \<open>Enumerations\<close>

datatype PhaseRiskLevel = SAFE | LOW | MEDIUM | HIGH | CRITICAL

datatype ControlMode = AUTONOMOUS | HUMAN | SHARED

datatype ActionType = AUTO_SWITCH | ASK | SUGGEST | NOTIFY | BLOCK | NONE

datatype error = ValueError | KeyError

text \<open>The \<^verbatim>\<open>.value\<close> of a risk level, and the enumeration's constructor call
  \<^verbatim>\<open>PhaseRiskLevel(v)\<close>, which raises \<^verbatim>\<open>ValueError\<close> on an integer that is no
  member's value.\<close>

fun risk_value :: "PhaseRiskLevel \<Rightarrow> int" where
  "risk_value SAFE = 0"
| "risk_value LOW = 1"
| "risk_value MEDIUM = 2"
| "risk_value HIGH = 3"
| "risk_value CRITICAL = 4"

definition PhaseRiskLevel_of_value :: "int \<Rightarrow> error + PhaseRiskLevel" where
  "PhaseRiskLevel_of_value v =
     (if v = 0 then Inr SAFE
      else if v = 1 then Inr LOW
      else if v = 2 then Inr MEDIUM
      else if v = 3 then Inr HIGH
      else if v = 4 then Inr CRITICAL
      else Inl ValueError)"

text \<open>The \<^verbatim>\<open>.name\<close> of an enumeration member.\<close>

fun risk_name :: "PhaseRiskLevel \<Rightarrow> string" where
  "risk_name SAFE = ''SAFE''"
| "risk_name LOW = ''LOW''"
| "risk_name MEDIUM = ''MEDIUM''"
| "risk_name HIGH = ''HIGH''"
| "risk_name CRITICAL = ''CRITICAL''"

fun mode_name :: "ControlMode \<Rightarrow> string" where
  "mode_name AUTONOMOUS = ''AUTONOMOUS''"
| "mode_name HUMAN = ''HUMAN''"
| "mode_name SHARED = ''SHARED''"

subsection \<open>Strings, dictionary values\<close>

text \<open>
  A piece of a Python string: ASCII text, a run of non-ASCII characters given by their
  code points as the source file holds them, a float rendered by \<^verbatim>\<open>:.2f\<close> or by
  \<^verbatim>\<open>:.0%\<close>, an integer rendered by \<^verbatim>\<open>str\<close>, and the \<^verbatim>\<open>repr\<close> of a list of
  strings.
\<close>

datatype piece =
    Str string
  | Uni "nat list"
  | Fixed2 real
  | Percent0 real
  | IntStr int
  | ReprList "piece list list"

type_synonym pystr = "piece list"

text \<open>The test \<^verbatim>\<open>s == ""\<close>: a string is empty when every piece of it renders to no
  character. A formatted number and the \<^verbatim>\<open>repr\<close> of a list always render to some.\<close>

fun piece_is_empty :: "piece \<Rightarrow> bool" where
  "piece_is_empty (Str s) = (s = [])"
| "piece_is_empty (Uni cs) = (cs = [])"
| "piece_is_empty (Fixed2 x) = False"
| "piece_is_empty (Percent0 x) = False"
| "piece_is_empty (IntStr n) = False"
| "piece_is_empty (ReprList xs) = False"

definition str_is_empty :: "pystr \<Rightarrow> bool" where
  "str_is_empty s = list_all piece_is_empty s"

text \<open>A value stored in the open \<^verbatim>\<open>reasons\<close> dictionary.\<close>

datatype pyval = PBool bool | PStr pystr | PFloat real | PList "pystr list"

text \<open>\<^verbatim>\<open>d.get(k, default)\<close> on a dictionary written as a literal.\<close>

definition dict_get :: "('k \<times> 'v) list \<Rightarrow> 'k \<Rightarrow> 'v \<Rightarrow> 'v" where
  "dict_get d k dflt = (case map_of d k of Some v \<Rightarrow> v | None \<Rightarrow> dflt)"

text \<open>\<^verbatim>\<open>d[k]\<close>, which raises \<^verbatim>\<open>KeyError\<close> on a missing key.\<close>

definition dict_index :: "('k \<times> 'v) list \<Rightarrow> 'k \<Rightarrow> error + 'v" where
  "dict_index d k = (case map_of d k of Some v \<Rightarrow> Inr v | None \<Rightarrow> Inl KeyError)"

text \<open>\<^verbatim>\<open>int(x)\<close> on a float truncates toward zero.\<close>

definition py_int :: "real \<Rightarrow> int" where
  "py_int x = (if 0 \<le> x then \<lfloor>x\<rfloor> else \<lceil>x\<rceil>)"

text \<open>\<^verbatim>\<open>sub in s\<close> on strings: \<open>sub\<close> occurs as a contiguous run of \<open>s\<close>.\<close>

fun str_contains :: "string \<Rightarrow> string \<Rightarrow> bool" where
  "str_contains sub [] = (sub = [])"
| "str_contains sub (c # cs) = (prefix sub (c # cs) \<or> str_contains sub cs)"

subsection \<open>Data classes\<close>

record ModeRecommendation =
  recommended_mode :: ControlMode
  confidence :: real
  human_reliability :: real
  autonomous_reliability :: real
  docking_reliability :: "real option"

record AuthorityDecision =
  action_type :: ActionType
  target_mode :: ControlMode
  message :: pystr
  explanation :: pystr
  urgency :: string
  allow_decline :: bool
  timeout_seconds :: "int option"
  reasons :: "(string \<times> pyval) list"

subsection \<open>PhaseRiskClassifier\<close>

definition PHASE_RISK_MAP :: "(string \<times> PhaseRiskLevel) list" where
  "PHASE_RISK_MAP =
     [(''Docking'', CRITICAL),
      (''DockingApproach'', CRITICAL),
      (''Undocking'', HIGH),
      (''Inspection'', MEDIUM),
      (''Transit'', LOW),
      (''Charging'', SAFE)]"

definition CRITICALITY_MODIFIER :: "(string \<times> int) list" where
  "CRITICALITY_MODIFIER =
     [(''Routine'', 0),
      (''Important'', 1),
      (''Critical'', 2)]"

definition get_risk_level :: "string \<Rightarrow> string \<Rightarrow> error + PhaseRiskLevel" where
  "get_risk_level phase task_criticality =
     (let base_risk = dict_get PHASE_RISK_MAP phase MEDIUM;
          modifier = dict_get CRITICALITY_MODIFIER task_criticality 0;
          effective_risk_value = min (risk_value base_risk + modifier) (risk_value CRITICAL)
      in PhaseRiskLevel_of_value effective_risk_value)"

text \<open>\<^verbatim>\<open>is_autonomous_allowed(phase, task_criticality="Routine")\<close>: a caller that
  leaves the second argument out is modelled by passing \<open>''Routine''\<close>.\<close>

definition is_autonomous_allowed :: "string \<Rightarrow> string \<Rightarrow> error + bool" where
  "is_autonomous_allowed phase task_criticality =
     (case get_risk_level phase task_criticality of
        Inl e \<Rightarrow> Inl e
      | Inr risk_level \<Rightarrow> Inr (risk_level \<noteq> CRITICAL))"

subsection \<open>AuthorityRuleEngine: state and configuration\<close>

text \<open>
  The attributes \<^verbatim>\<open>__init__\<close> assigns. The methods below take the engine as their
  first argument, as the source's \<^verbatim>\<open>self\<close>; none of them assigns to an attribute,
  so none returns an engine. A leading underscore of a method name is dropped.
\<close>

record AuthorityRuleEngine =
  mode_change_history :: "pyval list"
  last_mode_change_time :: "real option"
  minimum_mode_duration :: real
  CRITICAL_LOW_THRESHOLD :: real
  LOW_THRESHOLD :: real
  HIGH_THRESHOLD :: real

definition AuthorityRuleEngine_init :: AuthorityRuleEngine where
  "AuthorityRuleEngine_init =
     \<lparr>mode_change_history = [],
      last_mode_change_time = None,
      minimum_mode_duration = 120,
      CRITICAL_LOW_THRESHOLD = 0.5,
      LOW_THRESHOLD = 0.6,
      HIGH_THRESHOLD = 0.8\<rparr>"

subsection \<open>Explanation text\<close>

definition NL :: string where
  "NL = [CHR 0x0A]"

definition bullet :: piece where
  "bullet = Uni [0x201A, 0xC4, 0xA2]"

definition warning_sign :: piece where
  "warning_sign = Uni [0x201A, 0xF6, 0x2020, 0xD4, 0x220F, 0xE8]"

definition reliability_label :: "AuthorityRuleEngine \<Rightarrow> real \<Rightarrow> string" where
  "reliability_label self reliability =
     (if reliability \<ge> HIGH_THRESHOLD self then ''Excellent''
      else if reliability \<ge> 0.7 then ''Good''
      else if reliability \<ge> LOW_THRESHOLD self then ''Fair''
      else if reliability \<ge> CRITICAL_LOW_THRESHOLD self then ''Low''
      else ''Critical'')"

definition diagnose_autonomous_degradation ::
  "AuthorityRuleEngine \<Rightarrow> ModeRecommendation \<Rightarrow> pystr list" where
  "diagnose_autonomous_degradation self bn_rec =
     (let factors = [];
          factors =
            (if autonomous_reliability bn_rec < 0.6
             then factors @
                    [[Str ''Navigation accuracy reduced (possible USBL degradation)''],
                     [Str ''Environmental conditions affecting stability'']]
             else factors);
          factors =
            (case docking_reliability bn_rec of
               None \<Rightarrow> factors
             | Some dr \<Rightarrow>
                 if dr < 0.7
                 then factors @
                        [[Str ''Docking conditions suboptimal (reliability: '',
                          Percent0 dr, Str '')'']]
                 else factors);
          factors =
            (if factors = []
             then factors @ [[Str ''Minor performance degradation detected'']]
             else factors)
      in factors)"

definition generate_explanation ::
  "AuthorityRuleEngine \<Rightarrow> string \<Rightarrow> string \<Rightarrow> ModeRecommendation \<Rightarrow> pystr \<Rightarrow> pystr" where
  "generate_explanation self scenario mission_phase bn_rec summary =
     (let explanation_parts = [summary @ [Str ''.'']];
          explanation_parts = explanation_parts @
            [[Str (NL @ NL), Uni [0xF8FF, 0xFC, 0xEC, 0xE4], Str '' Performance Assessment:'']];
          explanation_parts = explanation_parts @
            [[Str (NL @ ''  ''), bullet, Str '' Your reliability: '',
              Percent0 (human_reliability bn_rec), Str '' ('',
              Str (reliability_label self (human_reliability bn_rec)), Str '')'']];
          explanation_parts = explanation_parts @
            [[Str (NL @ ''  ''), bullet, Str '' System reliability: '',
              Percent0 (autonomous_reliability bn_rec), Str '' ('',
              Str (reliability_label self (autonomous_reliability bn_rec)), Str '')'']];
          explanation_parts =
            (case docking_reliability bn_rec of
               None \<Rightarrow> explanation_parts
             | Some dr \<Rightarrow> explanation_parts @
                 [[Str (NL @ ''  ''), bullet, Str '' Docking reliability: '', Percent0 dr]]);
          explanation_parts =
            (if str_contains ''auto_to_human'' scenario then
               (let factors = diagnose_autonomous_degradation self bn_rec in
                if factors \<noteq> [] then
                  explanation_parts @
                    [[Str (NL @ NL), Uni [0xF8FF, 0xFC, 0xEE, 0xE7],
                      Str '' Autonomous System Status:'']] @
                    map (\<lambda>factor. [Str (NL @ ''  ''), bullet, Str '' ''] @ factor) factors
                else explanation_parts)
             else if str_contains ''human'' scenario
                     \<and> human_reliability bn_rec < LOW_THRESHOLD self then
               (let explanation_parts = explanation_parts @
                      [[Str (NL @ NL), warning_sign, Str '' Your Current State:'']]
                in if human_reliability bn_rec < CRITICAL_LOW_THRESHOLD self then
                     explanation_parts @
                       [[Str (NL @ ''  ''), bullet, Str '' Fatigue level is critically high''],
                        [Str (NL @ ''  ''), bullet,
                         Str '' Attention capacity is significantly reduced''],
                        [Str (NL @ ''  ''), bullet, Str '' Cognitive workload may be elevated'']]
                   else
                     explanation_parts @
                       [[Str (NL @ ''  ''), bullet, Str '' Fatigue is accumulating''],
                        [Str (NL @ ''  ''), bullet,
                         Str '' Consider using automation to reduce workload'']])
             else explanation_parts);
          explanation_parts = explanation_parts @
            [[Str (NL @ NL), Uni [0xF8FF, 0xFC, 0xEC, 0xE7], Str '' Mission Context: '',
              Str mission_phase, Str '' phase'']];
          confidence_desc =
            (if confidence bn_rec > 0.8 then ''very confident''
             else if confidence bn_rec > 0.6 then ''confident''
             else ''moderately confident'');
          explanation_parts = explanation_parts @
            [[Str (NL @ NL), Str ''System is '', Str confidence_desc,
              Str '' in this recommendation ('', Percent0 (confidence bn_rec), Str '').'']]
      in concat explanation_parts)"

subsection \<open>Priority 1: operator override\<close>

text \<open>The part of \<^verbatim>\<open>_handle_operator_override\<close> after the guard (``allow override
  with appropriate warning'').\<close>

definition operator_override_accepted ::
  "ControlMode \<Rightarrow> PhaseRiskLevel \<Rightarrow> string \<Rightarrow> error + AuthorityDecision" where
  "operator_override_accepted requested_mode risk_level mission_phase =
     (let urgency_map =
            [(SAFE, ''low''),
             (LOW, ''low''),
             (MEDIUM, ''medium''),
             (HIGH, ''high''),
             (CRITICAL, ''critical'')];
          warning =
            (if risk_value risk_level \<ge> risk_value HIGH
             then [Str '' '', warning_sign, Str '' Warning: '', Str mission_phase,
                   Str '' is a high-risk phase.'']
             else [])
      in case dict_index urgency_map risk_level of
           Inl e \<Rightarrow> Inl e
         | Inr u \<Rightarrow>
             Inr \<lparr>action_type = AUTO_SWITCH,
                  target_mode = requested_mode,
                  message = [Uni [0x201A, 0xFA, 0xEC], Str '' Operator override accepted: '',
                             Str (mode_name requested_mode)] @ warning,
                  explanation = [Str ''You have manually selected '',
                                 Str (mode_name requested_mode), Str '' mode. '',
                                 Str ''The system will respect your decision.''] @ warning,
                  urgency = u,
                  allow_decline = False,
                  timeout_seconds = None,
                  reasons = [(''operator_override'', PBool True),
                             (''risk_level'', PStr [Str (risk_name risk_level)]),
                             (''phase'', PStr [Str mission_phase])]\<rparr>)"

definition handle_operator_override ::
  "AuthorityRuleEngine \<Rightarrow> ControlMode \<Rightarrow> ControlMode \<Rightarrow> PhaseRiskLevel \<Rightarrow> string
     \<Rightarrow> error + AuthorityDecision" where
  "handle_operator_override self requested_mode current_mode risk_level mission_phase =
     (if requested_mode = AUTONOMOUS then
        (case is_autonomous_allowed mission_phase ''Routine'' of
           Inl e \<Rightarrow> Inl e
         | Inr allowed \<Rightarrow>
             if \<not> allowed then
               Inr \<lparr>action_type = BLOCK,
                    target_mode = current_mode,
                    message = [Uni [0x201A, 0xF9, 0xE5],
                               Str '' Autonomous mode not allowed during '', Str mission_phase],
                    explanation =
                      [Str ''Safety rules prohibit autonomous operation during '',
                       Str mission_phase, Str '' phase. '',
                       Str ''This is a critical phase requiring human judgment. '',
                       Str ''Shared control is available if you need assistance.''],
                    urgency = ''high'',
                    allow_decline = False,
                    timeout_seconds = None,
                    reasons = [(''blocked'', PBool True),
                               (''reason'', PStr [Str ''phase_safety_rule'']),
                               (''phase'', PStr [Str mission_phase]),
                               (''risk_level'', PStr [Str (risk_name risk_level)]),
                               (''alternative'', PStr [Str ''Shared control available''])]\<rparr>
             else operator_override_accepted requested_mode risk_level mission_phase)
      else operator_override_accepted requested_mode risk_level mission_phase)"

subsection \<open>Priority 2: hard safety rules\<close>

definition apply_safety_rules ::
  "AuthorityRuleEngine \<Rightarrow> ControlMode \<Rightarrow> ControlMode \<Rightarrow> PhaseRiskLevel \<Rightarrow> string
     \<Rightarrow> ModeRecommendation \<Rightarrow> AuthorityDecision option" where
  "apply_safety_rules self current_mode recommended risk_level mission_phase bn_rec =
     (if risk_level = CRITICAL \<and> current_mode = HUMAN
         \<and> human_reliability bn_rec < CRITICAL_LOW_THRESHOLD self then
        Some \<lparr>action_type = NOTIFY,
              target_mode = current_mode,
              message = [Uni [0xF8FF, 0xFC, 0xF6, 0xAE],
                         Str '' SAFETY ALERT: Critical fatigue during '', Str mission_phase],
              explanation =
                [Str ''Your reliability is critically low ('',
                 Fixed2 (human_reliability bn_rec), Str '') during '', Str mission_phase,
                 Str '' phase. '',
                 Str ''Consider aborting operation and returning to safe zone. '',
                 Str ''Autonomous mode is not allowed during this critical phase. '',
                 Str ''Shared control can provide assistance.''],
              urgency = ''critical'',
              allow_decline = False,
              timeout_seconds = None,
              reasons = [(''safety_alert'', PBool True),
                         (''human_reliability'', PFloat (human_reliability bn_rec)),
                         (''threshold'', PFloat (CRITICAL_LOW_THRESHOLD self)),
                         (''phase'', PStr [Str mission_phase]),
                         (''recommendation'', PStr [Str ''abort_and_rest''])]\<rparr>
      else if current_mode = AUTONOMOUS \<and> recommended = HUMAN
              \<and> autonomous_reliability bn_rec < LOW_THRESHOLD self then
        Some \<lparr>action_type = AUTO_SWITCH,
              target_mode = HUMAN,
              message = [warning_sign,
                         Str '' Autonomous performance degraded - Switching to Human''],
              explanation =
                [Str ''Autonomous control reliability has dropped to '',
                 Fixed2 (autonomous_reliability bn_rec), Str ''. '',
                 Str ''Reasons: '',
                 ReprList (diagnose_autonomous_degradation self bn_rec), Str ''. '',
                 Str ''Human control required for safety.''],
              urgency = ''high'',
              allow_decline = False,
              timeout_seconds = None,
              reasons = [(''auto_switch_to_human'', PBool True),
                         (''auto_reliability'', PFloat (autonomous_reliability bn_rec)),
                         (''threshold'', PFloat (LOW_THRESHOLD self)),
                         (''diagnosis'',
                          PList (diagnose_autonomous_degradation self bn_rec))]\<rparr>
      else None)"

subsection \<open>Priority 4: phase-dependent rules\<close>

definition handle_critical_phase ::
  "AuthorityRuleEngine \<Rightarrow> ControlMode \<Rightarrow> ControlMode \<Rightarrow> string \<Rightarrow> ModeRecommendation
     \<Rightarrow> AuthorityDecision" where
  "handle_critical_phase self current_mode recommended mission_phase bn_rec =
     (if current_mode = AUTONOMOUS \<and> recommended = HUMAN then
        (let explanation_text = generate_explanation self ''auto_to_human_critical''
               mission_phase bn_rec
               [Str ''Autonomous system detected conditions requiring human judgment'']
         in \<lparr>action_type = AUTO_SWITCH,
             target_mode = HUMAN,
             message = [Uni [0xF8FF, 0xFC, 0xF6, 0xAE],
                        Str '' Critical Phase - Switching to Human Control''],
             explanation = explanation_text,
             urgency = ''critical'',
             allow_decline = False,
             timeout_seconds = None,
             reasons = [(''phase'', PStr [Str mission_phase]),
                        (''transition'', PStr [Str ''auto_to_human'']),
                        (''auto_reliability'', PFloat (autonomous_reliability bn_rec)),
                        (''human_reliability'', PFloat (human_reliability bn_rec))]\<rparr>)
      else if current_mode = HUMAN \<and> recommended = AUTONOMOUS then
        \<lparr>action_type = BLOCK,
         target_mode = current_mode,
         message = [Uni [0x201A, 0xF9, 0xE5], Str '' Autonomous mode blocked during '',
                    Str mission_phase],
         explanation =
           [Str ''Autonomous operation is not permitted during '', Str mission_phase,
            Str ''. '',
            Str ''This critical phase requires human judgment and decision-making. '',
            Str ''Shared control is available if you need assistance with positioning or stabilization.''],
         urgency = ''high'',
         allow_decline = False,
         timeout_seconds = None,
         reasons = [(''blocked'', PBool True),
                    (''reason'', PStr [Str ''critical_phase_safety'']),
                    (''phase'', PStr [Str mission_phase])]\<rparr>
      else if recommended = SHARED then
        (let explanation_text = generate_explanation self ''suggest_shared_critical''
               mission_phase bn_rec
               [Str ''Shared control can assist during this critical phase'']
         in \<lparr>action_type = ASK,
             target_mode = SHARED,
             message = [Uni [0xF8FF, 0xFC, 0xA7, 0xF9],
                        Str '' Shared control recommended for '', Str mission_phase],
             explanation = explanation_text,
             urgency = ''medium'',
             allow_decline = True,
             timeout_seconds = Some 30,
             reasons = [(''phase'', PStr [Str mission_phase]),
                        (''transition'',
                         PStr [Str (mode_name current_mode), Str ''_to_shared'']),
                        (''benefits'',
                         PStr [Str ''System can assist with stabilization while you focus on critical decisions''])]\<rparr>)
      else
        \<lparr>action_type = NONE,
         target_mode = current_mode,
         message = [Str ''Maintaining '', Str (mode_name current_mode), Str '' mode''],
         explanation = [Str ''Current mode is appropriate for '', Str mission_phase,
                        Str ''.''],
         urgency = ''low'',
         allow_decline = False,
         timeout_seconds = None,
         reasons = []\<rparr>)"

definition handle_high_risk_phase ::
  "AuthorityRuleEngine \<Rightarrow> ControlMode \<Rightarrow> ControlMode \<Rightarrow> string \<Rightarrow> ModeRecommendation
     \<Rightarrow> AuthorityDecision" where
  "handle_high_risk_phase self current_mode recommended mission_phase bn_rec =
     (if current_mode = AUTONOMOUS \<and> recommended = HUMAN then
        (let explanation_text = generate_explanation self ''auto_to_human_high''
               mission_phase bn_rec [Str ''Autonomous reliability has decreased'']
         in \<lparr>action_type = AUTO_SWITCH,
             target_mode = HUMAN,
             message = [warning_sign, Str '' High Risk Phase - Switching to Human Control''],
             explanation = explanation_text,
             urgency = ''high'',
             allow_decline = False,
             timeout_seconds = None,
             reasons = [(''phase'', PStr [Str mission_phase]),
                        (''auto_reliability'', PFloat (autonomous_reliability bn_rec)),
                        (''human_reliability'', PFloat (human_reliability bn_rec))]\<rparr>)
      else if current_mode = HUMAN \<and> recommended = AUTONOMOUS then
        (let urgency_text =
               (if human_reliability bn_rec < LOW_THRESHOLD self then ''high''
                else ''medium'');
             message_prefix =
               (if human_reliability bn_rec < LOW_THRESHOLD self
                then [warning_sign, Str '' Your fatigue is high.'']
                else []);
             explanation_text = generate_explanation self ''human_to_auto_high''
               mission_phase bn_rec
               (message_prefix @ [Str '' Autonomous system can handle '', Str mission_phase])
         in \<lparr>action_type = ASK,
             target_mode = AUTONOMOUS,
             message = message_prefix @ [Str '' Switch to Autonomous for '',
                                         Str mission_phase, Str ''?''],
             explanation = explanation_text,
             urgency = urgency_text,
             allow_decline = True,
             timeout_seconds = Some 45,
             reasons = [(''phase'', PStr [Str mission_phase]),
                        (''human_reliability'', PFloat (human_reliability bn_rec)),
                        (''auto_reliability'', PFloat (autonomous_reliability bn_rec)),
                        (''fatigue_warning'',
                         PBool (human_reliability bn_rec < LOW_THRESHOLD self))]\<rparr>)
      else if recommended = SHARED then
        (let explanation_text = generate_explanation self ''suggest_shared''
               mission_phase bn_rec
               [Str ''Shared control balances human oversight with system assistance'']
         in \<lparr>action_type = SUGGEST,
             target_mode = SHARED,
             message = [Uni [0xF8FF, 0xFC, 0xA7, 0xF9],
                        Str '' Shared control available for '', Str mission_phase],
             explanation = explanation_text,
             urgency = ''medium'',
             allow_decline = True,
             timeout_seconds = Some 30,
             reasons = [(''phase'', PStr [Str mission_phase])]\<rparr>)
      else
        \<lparr>action_type = NONE,
         target_mode = current_mode,
         message = [Str ''Mode stable''],
         explanation = [],
         urgency = ''low'',
         allow_decline = False,
         timeout_seconds = None,
         reasons = []\<rparr>)"

definition handle_medium_risk_phase ::
  "AuthorityRuleEngine \<Rightarrow> ControlMode \<Rightarrow> ControlMode \<Rightarrow> string \<Rightarrow> ModeRecommendation
     \<Rightarrow> AuthorityDecision" where
  "handle_medium_risk_phase self current_mode recommended mission_phase bn_rec =
     (if current_mode = AUTONOMOUS \<and> recommended = HUMAN then
        (let explanation_text = generate_explanation self ''auto_degraded_medium''
               mission_phase bn_rec
               [Str ''Autonomous performance has decreased but can continue'']
         in \<lparr>action_type = ASK,
             target_mode = HUMAN,
             message = [Uni [0x201A, 0xD1, 0x3C0, 0xD4, 0x220F, 0xE8],
                        Str '' Autonomous performance degraded - Switch to manual?''],
             explanation = explanation_text
                             @ [Str '' Autonomous mode can continue if you prefer.''],
             urgency = ''medium'',
             allow_decline = True,
             timeout_seconds = Some 60,
             reasons = [(''phase'', PStr [Str mission_phase]),
                        (''auto_reliability'', PFloat (autonomous_reliability bn_rec)),
                        (''can_continue_auto'', PBool True)]\<rparr>)
      else if current_mode = HUMAN \<and> recommended = AUTONOMOUS then
        (let explanation_text = generate_explanation self ''offer_auto_assist''
               mission_phase bn_rec [Str ''Autopilot can handle routine inspection tasks'']
         in \<lparr>action_type = SUGGEST,
             target_mode = AUTONOMOUS,
             message = [Uni [0xF8FF, 0xFC, 0xA7, 0xF1],
                        Str '' Autopilot available - Enable to conserve attention?''],
             explanation = explanation_text
                             @ [Str '' You can monitor without active control.''],
             urgency = ''low'',
             allow_decline = True,
             timeout_seconds = None,
             reasons = [(''phase'', PStr [Str mission_phase]),
                        (''benefit'', PStr [Str ''reduce_operator_workload'']),
                        (''auto_reliability'', PFloat (autonomous_reliability bn_rec))]\<rparr>)
      else if recommended = SHARED then
        (let explanation_text = generate_explanation self ''suggest_shared''
               mission_phase bn_rec
               [Str ''Shared control optimizes human-system performance'']
         in \<lparr>action_type = SUGGEST,
             target_mode = SHARED,
             message = [Uni [0xF8FF, 0xFC, 0xA7, 0xF9], Str '' Shared control recommended''],
             explanation = explanation_text,
             urgency = ''low'',
             allow_decline = True,
             timeout_seconds = None,
             reasons = [(''phase'', PStr [Str mission_phase])]\<rparr>)
      else
        \<lparr>action_type = NONE,
         target_mode = current_mode,
         message = [],
         explanation = [],
         urgency = ''low'',
         allow_decline = False,
         timeout_seconds = None,
         reasons = []\<rparr>)"

definition handle_low_risk_phase ::
  "AuthorityRuleEngine \<Rightarrow> ControlMode \<Rightarrow> ControlMode \<Rightarrow> string \<Rightarrow> ModeRecommendation
     \<Rightarrow> AuthorityDecision" where
  "handle_low_risk_phase self current_mode recommended mission_phase bn_rec =
     (if current_mode = AUTONOMOUS \<and> recommended = HUMAN then
        (let explanation_text = generate_explanation self ''auto_degraded_low''
               mission_phase bn_rec [Str ''Autonomous performance decreased'']
         in \<lparr>action_type = NOTIFY,
             target_mode = current_mode,
             message = [Uni [0x201A, 0xD1, 0x3C0, 0xD4, 0x220F, 0xE8],
                        Str '' Autonomous performance note - Available to take control''],
             explanation = explanation_text
                             @ [Str '' No immediate action required during transit.''],
             urgency = ''low'',
             allow_decline = False,
             timeout_seconds = None,
             reasons = [(''phase'', PStr [Str mission_phase]),
                        (''auto_reliability'', PFloat (autonomous_reliability bn_rec)),
                        (''info_only'', PBool True)]\<rparr>)
      else if current_mode = HUMAN \<and> recommended = AUTONOMOUS then
        (let explanation_text = generate_explanation self ''offer_auto_rest''
               mission_phase bn_rec
               [Str ''Autopilot can handle transit to conserve your attention'']
         in \<lparr>action_type = SUGGEST,
             target_mode = AUTONOMOUS,
             message = [Uni [0xF8FF, 0xFC, 0xA7, 0xF1],
                        Str '' Autopilot available for transit - Rest and monitor?''],
             explanation = explanation_text
                             @ [Str '' This allows you to conserve attention for more demanding phases ahead.''],
             urgency = ''low'',
             allow_decline = True,
             timeout_seconds = None,
             reasons = [(''phase'', PStr [Str mission_phase]),
                        (''benefit'', PStr [Str ''operator_rest'']),
                        (''human_reliability'', PFloat (human_reliability bn_rec))]\<rparr>)
      else
        \<lparr>action_type = (if recommended \<noteq> current_mode then SUGGEST else NONE),
         target_mode = recommended,
         message = [Str ''Consider '', Str (mode_name recommended), Str '' mode?''],
         explanation = [Str (mode_name recommended),
                        Str '' mode is available during low-risk '', Str mission_phase,
                        Str ''.''],
         urgency = ''low'',
         allow_decline = True,
         timeout_seconds = None,
         reasons = [(''phase'', PStr [Str mission_phase])]\<rparr>)"

definition handle_safe_phase ::
  "AuthorityRuleEngine \<Rightarrow> ControlMode \<Rightarrow> ControlMode \<Rightarrow> string \<Rightarrow> ModeRecommendation
     \<Rightarrow> AuthorityDecision" where
  "handle_safe_phase self current_mode recommended mission_phase bn_rec =
     (if recommended = AUTONOMOUS \<and> current_mode \<noteq> AUTONOMOUS then
        \<lparr>action_type = AUTO_SWITCH,
         target_mode = AUTONOMOUS,
         message = [Uni [0x201A, 0xFA, 0xEC], Str '' Switching to Autonomous mode during '',
                    Str mission_phase],
         explanation =
           [Str ''ROV is safely docked and charging. Autonomous mode will monitor systems. '',
            Str ''You can take control at any time if needed.''],
         urgency = ''low'',
         allow_decline = False,
         timeout_seconds = None,
         reasons = [(''phase'', PStr [Str mission_phase]),
                    (''safe_phase_auto'', PBool True)]\<rparr>
      else
        \<lparr>action_type = NONE,
         target_mode = current_mode,
         message = [Str ''System monitoring during charging''],
         explanation = [],
         urgency = ''low'',
         allow_decline = False,
         timeout_seconds = None,
         reasons = [(''phase'', PStr [Str mission_phase])]\<rparr>)"

definition apply_phase_rules ::
  "AuthorityRuleEngine \<Rightarrow> ControlMode \<Rightarrow> ControlMode \<Rightarrow> PhaseRiskLevel \<Rightarrow> string
     \<Rightarrow> ModeRecommendation \<Rightarrow> AuthorityDecision" where
  "apply_phase_rules self current_mode recommended risk_level mission_phase bn_rec =
     (if current_mode = recommended then
        \<lparr>action_type = NONE,
         target_mode = current_mode,
         message = [Str ''Mode stable: '', Str (mode_name current_mode)],
         explanation = [Str ''Current mode is optimal for '', Str mission_phase,
                        Str '' phase.''],
         urgency = ''low'',
         allow_decline = False,
         timeout_seconds = None,
         reasons = [(''no_change_needed'', PBool True)]\<rparr>
      else if risk_level = CRITICAL then
        handle_critical_phase self current_mode recommended mission_phase bn_rec
      else if risk_level = HIGH then
        handle_high_risk_phase self current_mode recommended mission_phase bn_rec
      else if risk_level = MEDIUM then
        handle_medium_risk_phase self current_mode recommended mission_phase bn_rec
      else if risk_level = LOW then
        handle_low_risk_phase self current_mode recommended mission_phase bn_rec
      else
        handle_safe_phase self current_mode recommended mission_phase bn_rec)"

subsection \<open>The priority chain\<close>

text \<open>
  \<^verbatim>\<open>if safety_decision:\<close> tests an instance of a data class that defines neither
  \<^verbatim>\<open>__bool__\<close> nor \<^verbatim>\<open>__len__\<close>, so it is the test \<^verbatim>\<open>is not None\<close>.
\<close>

definition evaluate_mode_change ::
  "AuthorityRuleEngine \<Rightarrow> ControlMode \<Rightarrow> ModeRecommendation \<Rightarrow> string \<Rightarrow> string \<Rightarrow> real
     \<Rightarrow> ControlMode option \<Rightarrow> error + AuthorityDecision" where
  "evaluate_mode_change self current_mode bn_recommendation mission_phase task_criticality
       time_since_last_change operator_override =
     (let recommended = recommended_mode bn_recommendation in
      case get_risk_level mission_phase task_criticality of
        Inl e \<Rightarrow> Inl e
      | Inr risk_level \<Rightarrow>
          (case operator_override of
             Some requested_mode \<Rightarrow>
               handle_operator_override self requested_mode current_mode risk_level
                 mission_phase
           | None \<Rightarrow>
               (case apply_safety_rules self current_mode recommended risk_level
                       mission_phase bn_recommendation of
                  Some safety_decision \<Rightarrow> Inr safety_decision
                | None \<Rightarrow>
                    if time_since_last_change < minimum_mode_duration self
                       \<and> recommended \<noteq> current_mode then
                      Inr \<lparr>action_type = NONE,
                           target_mode = current_mode,
                           message = [Str ''Mode stable for '',
                                      IntStr (py_int time_since_last_change), Str ''s''],
                           explanation =
                             [Str ''Minimum mode duration not reached to prevent rapid switching''],
                           urgency = ''low'',
                           allow_decline = False,
                           timeout_seconds = None,
                           reasons =
                             [(''hysteresis'', PBool True),
                              (''time_remaining'',
                               PFloat (minimum_mode_duration self
                                         - time_since_last_change))]\<rparr>
                    else
                      Inr (apply_phase_rules self current_mode recommended risk_level
                             mission_phase bn_recommendation))))"

subsection \<open>ModeArbitratorNode: decoding of mode tokens\<close>

text \<open>
  The part of the node the two callbacks read and write. \<^verbatim>\<open>msg.data.lower()\<close> is
  modelled on the letters \<open>A\<close> to \<open>Z\<close>. In \<^verbatim>\<open>_process_operator_override\<close> the
  recommendation object built ``for context'' is passed to nothing and is left out; the
  function is modelled up to the decision it hands to \<^verbatim>\<open>_execute_decision\<close>, whose
  publishing and logging are outside the embedding.
\<close>

definition lower_char :: "char \<Rightarrow> char" where
  "lower_char c =
     (let n = (of_char c :: nat)
      in if 65 \<le> n \<and> n \<le> 90 then char_of (n + 32) else c)"

definition lower :: "string \<Rightarrow> string" where
  "lower s = map lower_char s"

definition mode_map :: "(string \<times> ControlMode) list" where
  "mode_map =
     [(''autonomous'', AUTONOMOUS),
      (''human'', HUMAN),
      (''shared'', SHARED)]"

record ModeArbitratorNode =
  rule_engine :: AuthorityRuleEngine
  current_mode :: ControlMode
  current_phase :: string
  current_task_criticality :: string
  latest_bn_recommendation :: "ControlMode option"

text \<open>The attributes \<^verbatim>\<open>__init__\<close> gives a fresh node.\<close>

definition ModeArbitratorNode_init :: ModeArbitratorNode where
  "ModeArbitratorNode_init =
     \<lparr>rule_engine = AuthorityRuleEngine_init,
      current_mode = HUMAN,
      current_phase = ''Transit'',
      current_task_criticality = ''Routine'',
      latest_bn_recommendation = None\<rparr>"

definition bn_recommendation_callback :: "ModeArbitratorNode \<Rightarrow> string \<Rightarrow> ModeArbitratorNode" where
  "bn_recommendation_callback self data =
     (let mode_str = lower data
      in self\<lparr>latest_bn_recommendation := Some (dict_get mode_map mode_str SHARED)\<rparr>)"

definition process_operator_override ::
  "ModeArbitratorNode \<Rightarrow> ControlMode \<Rightarrow> error + AuthorityDecision" where
  "process_operator_override self requested_mode =
     (case get_risk_level (current_phase self) (current_task_criticality self) of
        Inl e \<Rightarrow> Inl e
      | Inr risk_level \<Rightarrow>
          handle_operator_override (rule_engine self) requested_mode (current_mode self)
            risk_level (current_phase self))"

text \<open>
  The result is \<open>None\<close> when the callback returns without handling an override, and
  otherwise the outcome of \<^verbatim>\<open>_process_operator_override\<close>. \<^verbatim>\<open>if requested_mode:\<close>
  tests the result of \<^verbatim>\<open>mode_map.get\<close>: \<^verbatim>\<open>None\<close> is false, and every member of the
  plain enumeration \<^verbatim>\<open>ControlMode\<close> is true.
\<close>

definition operator_override_callback ::
  "ModeArbitratorNode \<Rightarrow> string \<Rightarrow> (error + AuthorityDecision) option" where
  "operator_override_callback self data =
     (let requested_mode_str = lower data
      in case map_of mode_map requested_mode_str of
           None \<Rightarrow> None
         | Some requested_mode \<Rightarrow> Some (process_operator_override self requested_mode))"

subsection \<open>The risk table of the specification\<close>

text \<open>The risk table in the words of the specification: a base level per phase, a
  modifier per criticality, and the sum clamped at the top of the ordering.\<close>

definition spec_base :: "string \<Rightarrow> PhaseRiskLevel" where
  "spec_base phase =
     (if phase = ''Docking'' \<or> phase = ''DockingApproach'' then CRITICAL
      else if phase = ''Undocking'' then HIGH
      else if phase = ''Inspection'' then MEDIUM
      else if phase = ''Transit'' then LOW
      else if phase = ''Charging'' then SAFE
      else MEDIUM)"

definition spec_modifier :: "string \<Rightarrow> int" where
  "spec_modifier criticality =
     (if criticality = ''Routine'' then 0
      else if criticality = ''Important'' then 1
      else if criticality = ''Critical'' then 2
      else 0)"

fun spec_level_of :: "int \<Rightarrow> PhaseRiskLevel" where
  "spec_level_of v =
     (if v \<le> 0 then SAFE else if v = 1 then LOW else if v = 2 then MEDIUM
      else if v = 3 then HIGH else CRITICAL)"

definition spec_risk_level :: "string \<Rightarrow> string \<Rightarrow> PhaseRiskLevel" where
  "spec_risk_level phase criticality =
     spec_level_of (min (risk_value (spec_base phase) + spec_modifier criticality)
                        (risk_value CRITICAL))"

section \<open>Properties\<close>

subsection \<open>Risk classifier\<close>

lemma base_lookup: "dict_get PHASE_RISK_MAP phase MEDIUM = spec_base phase"
  by (simp add: dict_get_def PHASE_RISK_MAP_def spec_base_def)

lemma modifier_lookup: "dict_get CRITICALITY_MODIFIER c 0 = spec_modifier c"
  by (simp add: dict_get_def CRITICALITY_MODIFIER_def spec_modifier_def)

lemma spec_modifier_cases: "spec_modifier c = 0 \<or> spec_modifier c = 1 \<or> spec_modifier c = 2"
  by (simp add: spec_modifier_def)

lemma get_risk_level_spec: "get_risk_level phase c = Inr (spec_risk_level phase c)"
proof -
  have m: "spec_modifier c = 0 \<or> spec_modifier c = 1 \<or> spec_modifier c = 2"
    by (rule spec_modifier_cases)
  show ?thesis
    unfolding get_risk_level_def Let_def base_lookup modifier_lookup spec_risk_level_def
    using m by (cases "spec_base phase") (auto simp: PhaseRiskLevel_of_value_def)
qed

subsection \<open>Operator override and the phase handlers\<close>

lemma is_autonomous_allowed_spec:
  "is_autonomous_allowed phase c = Inr (spec_risk_level phase c \<noteq> CRITICAL)"
  by (simp add: is_autonomous_allowed_def get_risk_level_spec)

lemma routine_critical_iff:
  "spec_risk_level phase ''Routine'' = CRITICAL \<longleftrightarrow> phase = ''Docking'' \<or> phase = ''DockingApproach''"
  by (simp add: spec_risk_level_def spec_base_def spec_modifier_def)

lemma operator_override_accepted_result:
  "\<exists>d. operator_override_accepted m risk phase = Inr d \<and> action_type d = AUTO_SWITCH
        \<and> target_mode d = m \<and> allow_decline d = False
        \<and> urgency d \<in> {''low'', ''medium'', ''high'', ''critical''}"
  by (cases risk) (simp_all add: operator_override_accepted_def dict_index_def Let_def)

lemma handle_operator_override_result:
  "\<exists>d. handle_operator_override self m cur risk phase = Inr d
        \<and> (action_type d = AUTO_SWITCH \<and> target_mode d = m
            \<or> action_type d = BLOCK \<and> target_mode d = cur)
        \<and> urgency d \<in> {''low'', ''medium'', ''high'', ''critical''}"
  using operator_override_accepted_result [of m risk phase]
  by (auto simp add: handle_operator_override_def is_autonomous_allowed_spec)

lemma apply_safety_rules_result:
  "apply_safety_rules self cur rm risk phase r = Some d \<Longrightarrow>
     (action_type d = NOTIFY \<and> target_mode d = cur \<or> action_type d = AUTO_SWITCH)
     \<and> urgency d \<in> {''low'', ''medium'', ''high'', ''critical''}"
  by (auto simp add: apply_safety_rules_def Let_def split: if_splits)

lemma critical_phase_result:
  "(action_type (handle_critical_phase self cur rm phase r) \<in> {NONE, NOTIFY, BLOCK}
      \<longrightarrow> target_mode (handle_critical_phase self cur rm phase r) = cur)
   \<and> urgency (handle_critical_phase self cur rm phase r)
         \<in> {''low'', ''medium'', ''high'', ''critical''}"
  by (cases cur; cases rm) (simp_all add: handle_critical_phase_def Let_def)

lemma high_risk_phase_result:
  "(action_type (handle_high_risk_phase self cur rm phase r) \<in> {NONE, NOTIFY, BLOCK}
      \<longrightarrow> target_mode (handle_high_risk_phase self cur rm phase r) = cur)
   \<and> urgency (handle_high_risk_phase self cur rm phase r)
         \<in> {''low'', ''medium'', ''high'', ''critical''}"
  by (cases cur; cases rm) (simp_all add: handle_high_risk_phase_def Let_def)

lemma medium_risk_phase_result:
  "(action_type (handle_medium_risk_phase self cur rm phase r) \<in> {NONE, NOTIFY, BLOCK}
      \<longrightarrow> target_mode (handle_medium_risk_phase self cur rm phase r) = cur)
   \<and> urgency (handle_medium_risk_phase self cur rm phase r)
         \<in> {''low'', ''medium'', ''high'', ''critical''}"
  by (cases cur; cases rm) (simp_all add: handle_medium_risk_phase_def Let_def)

lemma low_risk_phase_result:
  "(action_type (handle_low_risk_phase self cur rm phase r) \<in> {NONE, NOTIFY, BLOCK}
      \<longrightarrow> target_mode (handle_low_risk_phase self cur rm phase r) = cur)
   \<and> urgency (handle_low_risk_phase self cur rm phase r)
         \<in> {''low'', ''medium'', ''high'', ''critical''}"
  by (cases cur; cases rm) (simp_all add: handle_low_risk_phase_def Let_def)

lemma safe_phase_result:
  "(action_type (handle_safe_phase self cur rm phase r) \<in> {NONE, NOTIFY, BLOCK}
      \<longrightarrow> target_mode (handle_safe_phase self cur rm phase r) = cur)
   \<and> urgency (handle_safe_phase self cur rm phase r)
         \<in> {''low'', ''medium'', ''high'', ''critical''}"
  by (cases cur; cases rm) (simp_all add: handle_safe_phase_def Let_def)

lemma apply_phase_rules_result:
  "(action_type (apply_phase_rules self cur rm risk phase r) \<in> {NONE, NOTIFY, BLOCK}
      \<longrightarrow> target_mode (apply_phase_rules self cur rm risk phase r) = cur)
   \<and> urgency (apply_phase_rules self cur rm risk phase r)
         \<in> {''low'', ''medium'', ''high'', ''critical''}"
proof (cases "cur = rm")
  case True
  then show ?thesis by (simp add: apply_phase_rules_def)
next
  case False
  then show ?thesis
    using critical_phase_result [of self cur rm phase r]
      high_risk_phase_result [of self cur rm phase r]
      medium_risk_phase_result [of self cur rm phase r]
      low_risk_phase_result [of self cur rm phase r]
      safe_phase_result [of self cur rm phase r]
    by (cases risk) (simp_all add: apply_phase_rules_def)
qed

text \<open>The value of the whole chain, with the risk level named.\<close>

lemma evaluate_mode_change_unfold:
  "evaluate_mode_change self cur r phase crit t ov =
     (case ov of
        Some requested \<Rightarrow>
          handle_operator_override self requested cur (spec_risk_level phase crit) phase
      | None \<Rightarrow>
          (case apply_safety_rules self cur (recommended_mode r) (spec_risk_level phase crit)
                  phase r of
             Some safety_decision \<Rightarrow> Inr safety_decision
           | None \<Rightarrow>
               if t < minimum_mode_duration self \<and> recommended_mode r \<noteq> cur then
                 Inr \<lparr>action_type = NONE,
                      target_mode = cur,
                      message = [Str ''Mode stable for '', IntStr (py_int t), Str ''s''],
                      explanation =
                        [Str ''Minimum mode duration not reached to prevent rapid switching''],
                      urgency = ''low'',
                      allow_decline = False,
                      timeout_seconds = None,
                      reasons =
                        [(''hysteresis'', PBool True),
                         (''time_remaining'', PFloat (minimum_mode_duration self - t))]\<rparr>
               else
                 Inr (apply_phase_rules self cur (recommended_mode r)
                        (spec_risk_level phase crit) phase r)))"
  by (simp add: evaluate_mode_change_def get_risk_level_spec Let_def)

lemma evaluate_mode_change_total:
  "\<exists>d. evaluate_mode_change self cur r phase crit t ov = Inr d
        \<and> (action_type d \<in> {NONE, NOTIFY, BLOCK} \<longrightarrow> target_mode d = cur)
        \<and> urgency d \<in> {''low'', ''medium'', ''high'', ''critical''}"
proof (cases ov)
  case (Some requested)
  then show ?thesis
    using handle_operator_override_result [of self requested cur "spec_risk_level phase crit" phase]
    by (auto simp add: evaluate_mode_change_unfold)
next
  case None
  show ?thesis
  proof (cases "apply_safety_rules self cur (recommended_mode r) (spec_risk_level phase crit) phase r")
    case (Some sd)
    with None show ?thesis
      using apply_safety_rules_result [OF Some]
      by (auto simp add: evaluate_mode_change_unfold)
  next
    case no_rule: None
    show ?thesis
    proof (cases "t < minimum_mode_duration self \<and> recommended_mode r \<noteq> cur")
      case True
      with None no_rule show ?thesis
        by (simp add: evaluate_mode_change_unfold)
    next
      case False
      with None no_rule show ?thesis
        using apply_phase_rules_result [of self cur "recommended_mode r"
                "spec_risk_level phase crit" phase r]
        by (simp add: evaluate_mode_change_unfold)
    qed
  qed
qed

lemma init_fields:
  "minimum_mode_duration AuthorityRuleEngine_init = 120"
  "CRITICAL_LOW_THRESHOLD AuthorityRuleEngine_init = 0.5"
  "LOW_THRESHOLD AuthorityRuleEngine_init = 0.6"
  "HIGH_THRESHOLD AuthorityRuleEngine_init = 0.8"
  by (simp_all add: AuthorityRuleEngine_init_def)

lemma risk_examples:
  "spec_risk_level ''Inspection'' ''Critical'' = CRITICAL"
  "spec_risk_level ''Transit'' ''Routine'' = LOW"
  "spec_risk_level ''DockingApproach'' ''Routine'' = CRITICAL"
  "spec_risk_level ''Docking'' ''Routine'' = CRITICAL"
  "spec_risk_level ''Undocking'' ''Routine'' = HIGH"
  by (simp_all add: spec_risk_level_def spec_base_def spec_modifier_def)

subsection \<open>Contents of the decision fields\<close>

lemma str_is_empty_simps:
  "str_is_empty [] = True"
  "str_is_empty (p # ps) = (piece_is_empty p \<and> str_is_empty ps)"
  "str_is_empty (xs @ ys) = (str_is_empty xs \<and> str_is_empty ys)"
  by (simp_all add: str_is_empty_def)

lemma generate_explanation_nonempty:
  "\<not> str_is_empty (generate_explanation self scenario phase r summary)"
  by (simp add: generate_explanation_def Let_def str_is_empty_simps split: option.split)

lemma operator_override_accepted_fields:
  "\<exists>d. operator_override_accepted m risk phase = Inr d
        \<and> \<not> str_is_empty (message d) \<and> \<not> str_is_empty (explanation d)
        \<and> reasons d \<noteq> [] \<and> timeout_seconds d = None \<and> action_type d \<noteq> ASK"
  by (cases risk)
     (simp_all add: operator_override_accepted_def dict_index_def Let_def str_is_empty_simps)

lemma handle_operator_override_fields:
  "\<exists>d. handle_operator_override self m cur risk phase = Inr d
        \<and> \<not> str_is_empty (message d) \<and> \<not> str_is_empty (explanation d)
        \<and> reasons d \<noteq> [] \<and> timeout_seconds d = None \<and> action_type d \<noteq> ASK"
  using operator_override_accepted_fields [of m risk phase]
  by (auto simp add: handle_operator_override_def is_autonomous_allowed_spec str_is_empty_simps)

lemma apply_safety_rules_fields:
  "apply_safety_rules self cur rm risk phase r = Some d \<Longrightarrow>
     \<not> str_is_empty (message d) \<and> \<not> str_is_empty (explanation d)
     \<and> reasons d \<noteq> [] \<and> timeout_seconds d = None \<and> action_type d \<noteq> ASK"
  by (auto simp add: apply_safety_rules_def warning_sign_def str_is_empty_simps
        split: if_splits)

lemma critical_phase_fields:
  "(action_type (handle_critical_phase self cur rm phase r) \<noteq> NONE \<longrightarrow>
      \<not> str_is_empty (message (handle_critical_phase self cur rm phase r))
      \<and> \<not> str_is_empty (explanation (handle_critical_phase self cur rm phase r))
      \<and> reasons (handle_critical_phase self cur rm phase r) \<noteq> [])
   \<and> timeout_seconds (handle_critical_phase self cur rm phase r)
         \<in> {None, Some 30, Some 45, Some 60}
   \<and> (action_type (handle_critical_phase self cur rm phase r) = ASK \<longrightarrow>
         timeout_seconds (handle_critical_phase self cur rm phase r) \<noteq> None)"
  by (cases cur; cases rm)
     (simp_all add: handle_critical_phase_def Let_def str_is_empty_simps
        generate_explanation_nonempty)
lemma high_risk_phase_fields:
  "(action_type (handle_high_risk_phase self cur rm phase r) \<noteq> NONE \<longrightarrow>
      \<not> str_is_empty (message (handle_high_risk_phase self cur rm phase r))
      \<and> \<not> str_is_empty (explanation (handle_high_risk_phase self cur rm phase r))
      \<and> reasons (handle_high_risk_phase self cur rm phase r) \<noteq> [])
   \<and> timeout_seconds (handle_high_risk_phase self cur rm phase r)
         \<in> {None, Some 30, Some 45, Some 60}
   \<and> (action_type (handle_high_risk_phase self cur rm phase r) = ASK \<longrightarrow>
         timeout_seconds (handle_high_risk_phase self cur rm phase r) \<noteq> None)"
  by (cases cur; cases rm)
     (simp_all add: handle_high_risk_phase_def Let_def str_is_empty_simps
        generate_explanation_nonempty)

lemma medium_risk_phase_fields:
  "(action_type (handle_medium_risk_phase self cur rm phase r) \<noteq> NONE \<longrightarrow>
      \<not> str_is_empty (message (handle_medium_risk_phase self cur rm phase r))
      \<and> \<not> str_is_empty (explanation (handle_medium_risk_phase self cur rm phase r))
      \<and> reasons (handle_medium_risk_phase self cur rm phase r) \<noteq> [])
   \<and> timeout_seconds (handle_medium_risk_phase self cur rm phase r)
         \<in> {None, Some 30, Some 45, Some 60}
   \<and> (action_type (handle_medium_risk_phase self cur rm phase r) = ASK \<longrightarrow>
         timeout_seconds (handle_medium_risk_phase self cur rm phase r) \<noteq> None)"
  by (cases cur; cases rm)
     (simp_all add: handle_medium_risk_phase_def Let_def str_is_empty_simps
        generate_explanation_nonempty)

lemma low_risk_phase_fields:
  "(action_type (handle_low_risk_phase self cur rm phase r) \<noteq> NONE \<longrightarrow>
      \<not> str_is_empty (message (handle_low_risk_phase self cur rm phase r))
      \<and> \<not> str_is_empty (explanation (handle_low_risk_phase self cur rm phase r))
      \<and> reasons (handle_low_risk_phase self cur rm phase r) \<noteq> [])
   \<and> timeout_seconds (handle_low_risk_phase self cur rm phase r)
         \<in> {None, Some 30, Some 45, Some 60}
   \<and> (action_type (handle_low_risk_phase self cur rm phase r) = ASK \<longrightarrow>
         timeout_seconds (handle_low_risk_phase self cur rm phase r) \<noteq> None)"
  by (cases cur; cases rm)
     (simp_all add: handle_low_risk_phase_def Let_def str_is_empty_simps
        generate_explanation_nonempty)

lemma safe_phase_fields:
  "(action_type (handle_safe_phase self cur rm phase r) \<noteq> NONE \<longrightarrow>
      \<not> str_is_empty (message (handle_safe_phase self cur rm phase r))
      \<and> \<not> str_is_empty (explanation (handle_safe_phase self cur rm phase r))
      \<and> reasons (handle_safe_phase self cur rm phase r) \<noteq> [])
   \<and> timeout_seconds (handle_safe_phase self cur rm phase r)
         \<in> {None, Some 30, Some 45, Some 60}
   \<and> (action_type (handle_safe_phase self cur rm phase r) = ASK \<longrightarrow>
         timeout_seconds (handle_safe_phase self cur rm phase r) \<noteq> None)"
  by (cases cur; cases rm)
     (simp_all add: handle_safe_phase_def Let_def str_is_empty_simps
        generate_explanation_nonempty)

lemma apply_phase_rules_fields:
  "(action_type (apply_phase_rules self cur rm risk phase r) \<noteq> NONE \<longrightarrow>
      \<not> str_is_empty (message (apply_phase_rules self cur rm risk phase r))
      \<and> \<not> str_is_empty (explanation (apply_phase_rules self cur rm risk phase r))
      \<and> reasons (apply_phase_rules self cur rm risk phase r) \<noteq> [])
   \<and> timeout_seconds (apply_phase_rules self cur rm risk phase r)
         \<in> {None, Some 30, Some 45, Some 60}
   \<and> (action_type (apply_phase_rules self cur rm risk phase r) = ASK \<longrightarrow>
         timeout_seconds (apply_phase_rules self cur rm risk phase r) \<noteq> None)"
proof (cases "cur = rm")
  case True
  then show ?thesis by (simp add: apply_phase_rules_def)
next
  case False
  then show ?thesis
    using critical_phase_fields [of self cur rm phase r]
      high_risk_phase_fields [of self cur rm phase r]
      medium_risk_phase_fields [of self cur rm phase r]
      low_risk_phase_fields [of self cur rm phase r]
      safe_phase_fields [of self cur rm phase r]
    by (cases risk) (simp_all add: apply_phase_rules_def)
qed

lemma evaluate_mode_change_fields:
  "\<exists>d. evaluate_mode_change self cur r phase crit t ov = Inr d
        \<and> (action_type d \<noteq> NONE \<longrightarrow>
              \<not> str_is_empty (message d) \<and> \<not> str_is_empty (explanation d)
              \<and> reasons d \<noteq> [])
        \<and> timeout_seconds d \<in> {None, Some 30, Some 45, Some 60}
        \<and> (action_type d = ASK \<longrightarrow> timeout_seconds d \<noteq> None)"
proof (cases ov)
  case (Some requested)
  then show ?thesis
    using handle_operator_override_fields [of self requested cur "spec_risk_level phase crit" phase]
    by (auto simp add: evaluate_mode_change_unfold)
next
  case None
  show ?thesis
  proof (cases "apply_safety_rules self cur (recommended_mode r) (spec_risk_level phase crit) phase r")
    case (Some sd)
    with None show ?thesis
      using apply_safety_rules_fields [OF Some]
      by (auto simp add: evaluate_mode_change_unfold)
  next
    case no_rule: None
    show ?thesis
    proof (cases "t < minimum_mode_duration self \<and> recommended_mode r \<noteq> cur")
      case True
      with None no_rule show ?thesis
        by (simp add: evaluate_mode_change_unfold)
    next
      case False
      with None no_rule show ?thesis
        using apply_phase_rules_fields [of self cur "recommended_mode r"
                "spec_risk_level phase crit" phase r]
        by (simp add: evaluate_mode_change_unfold)
    qed
  qed
qed

lemma apply_phase_rules_same_mode:
  "\<not> str_is_empty (message (apply_phase_rules self cur cur risk phase r))
   \<and> \<not> str_is_empty (explanation (apply_phase_rules self cur cur risk phase r))
   \<and> reasons (apply_phase_rules self cur cur risk phase r) \<noteq> []"
  by (simp add: apply_phase_rules_def str_is_empty_simps)

lemma evaluate_mode_change_blank:
  assumes "evaluate_mode_change self cur r phase crit t ov = Inr d"
    and "str_is_empty (message d) \<or> str_is_empty (explanation d) \<or> reasons d = []"
  shows "ov = None \<and> recommended_mode r \<noteq> cur \<and> \<not> t < minimum_mode_duration self"
proof (cases ov)
  case (Some requested)
  with assms show ?thesis
    using handle_operator_override_fields [of self requested cur "spec_risk_level phase crit" phase]
    by (auto simp add: evaluate_mode_change_unfold)
next
  case None
  show ?thesis
  proof (cases "apply_safety_rules self cur (recommended_mode r) (spec_risk_level phase crit) phase r")
    case (Some sd)
    with None assms show ?thesis
      using apply_safety_rules_fields [OF Some]
      by (auto simp add: evaluate_mode_change_unfold)
  next
    case no_rule: None
    show ?thesis
    proof (cases "t < minimum_mode_duration self \<and> recommended_mode r \<noteq> cur")
      case True
      with None no_rule assms show ?thesis
        by (auto simp add: evaluate_mode_change_unfold str_is_empty_simps)
    next
      case False
      with None no_rule assms
      have d: "d = apply_phase_rules self cur (recommended_mode r)
                     (spec_risk_level phase crit) phase r"
        by (simp add: evaluate_mode_change_unfold)
      have "recommended_mode r \<noteq> cur"
      proof
        assume "recommended_mode r = cur"
        with d assms(2) apply_phase_rules_same_mode [of self cur "spec_risk_level phase crit" phase r]
        show False by simp
      qed
      with False None show ?thesis by simp
    qed
  qed
qed

subsection \<open>The hard safety rules on the engine as constructed\<close>

lemma rule_B_fires:
  "recommended_mode r = HUMAN \<Longrightarrow> autonomous_reliability r < 0.6 \<Longrightarrow>
   \<exists>d. apply_safety_rules AuthorityRuleEngine_init AUTONOMOUS (recommended_mode r) risk phase r
          = Some d
        \<and> action_type d = AUTO_SWITCH \<and> target_mode d = HUMAN \<and> urgency d = ''high''"
  by (simp add: apply_safety_rules_def init_fields)

lemma rule_A_fires:
  "human_reliability r < 0.5 \<Longrightarrow>
   \<exists>d. apply_safety_rules AuthorityRuleEngine_init HUMAN rm CRITICAL phase r = Some d
        \<and> action_type d = NOTIFY \<and> target_mode d = HUMAN \<and> urgency d = ''critical''"
  by (simp add: apply_safety_rules_def init_fields)

lemma no_rule_human:
  "0.5 \<le> human_reliability r \<Longrightarrow>
   apply_safety_rules AuthorityRuleEngine_init HUMAN rm risk phase r = None"
  by (simp add: apply_safety_rules_def init_fields)

lemma no_rule_autonomous:
  "0.6 \<le> autonomous_reliability r \<Longrightarrow>
   apply_safety_rules AuthorityRuleEngine_init AUTONOMOUS rm risk phase r = None"
  by (simp add: apply_safety_rules_def init_fields)

section \<open>The claims\<close>

subsection \<open>C1: operator override towards Autonomous\<close>

text \<open>
  The handler calls \<^verbatim>\<open>is_autonomous_allowed(mission_phase)\<close> with the phase alone, so
  the gate is evaluated at the default criticality \<open>''Routine''\<close>: an override towards
  Autonomous is blocked exactly in the phases whose base risk is Critical.
\<close>

lemma override_autonomous_blocked_in_docking_phases:
  assumes "phase = ''Docking'' \<or> phase = ''DockingApproach''"
  shows "\<exists>d. evaluate_mode_change self cur r phase criticality elapsed (Some AUTONOMOUS) = Inr d
             \<and> action_type d = BLOCK \<and> target_mode d = cur \<and> urgency d = ''high''
             \<and> allow_decline d = False"
  using assms
  by (auto simp add: evaluate_mode_change_unfold handle_operator_override_def
        is_autonomous_allowed_spec routine_critical_iff)

text \<open>
  Claim C1: whenever \<open>is_autonomous_allowed phase criticality\<close> is false, an operator
  override towards Autonomous is answered by Block with the current mode as target.
  The code does not do this where the risk level is Critical through the task criticality
  only. At phase \<open>''Inspection''\<close> with criticality \<open>''Critical''\<close> the gate is false, and
  the engine accepts the override: the action is \<open>AUTO_SWITCH\<close> and the target is
  \<open>AUTONOMOUS\<close>.
\<close>

theorem C1_override_ignores_criticality:
  "is_autonomous_allowed ''Inspection'' ''Critical'' = Inr False
   \<and> map_sum id action_type
        (evaluate_mode_change AuthorityRuleEngine_init HUMAN
           \<lparr>recommended_mode = HUMAN, confidence = 0.7, human_reliability = 0.85,
            autonomous_reliability = 0.8, docking_reliability = None\<rparr>
           ''Inspection'' ''Critical'' 200 (Some AUTONOMOUS)) = Inr AUTO_SWITCH
   \<and> map_sum id target_mode
        (evaluate_mode_change AuthorityRuleEngine_init HUMAN
           \<lparr>recommended_mode = HUMAN, confidence = 0.7, human_reliability = 0.85,
            autonomous_reliability = 0.8, docking_reliability = None\<rparr>
           ''Inspection'' ''Critical'' 200 (Some AUTONOMOUS)) = Inr AUTONOMOUS"
  by (simp add: is_autonomous_allowed_spec evaluate_mode_change_unfold risk_examples
        handle_operator_override_def routine_critical_iff operator_override_accepted_def
        dict_index_def Let_def)

subsection \<open>C2: the Transit scenario\<close>

text \<open>
  Claim C2, as amended: in phase \<open>''Transit''\<close> with criticality \<open>''Routine''\<close>, no
  override, current mode Autonomous, recommended mode Human and 200 seconds elapsed, the
  engine switches to Human when the autonomous reliability is below 0.6 (as it is at
  0.55: the second hard safety rule comes before the phase rules), and it answers Notify
  with the target left at Autonomous when the autonomous reliability is at least 0.6.
\<close>

theorem C2_transit_autonomous_to_human:
  assumes "recommended_mode r = HUMAN"
  shows "(autonomous_reliability r < 0.6 \<longrightarrow>
           (\<exists>d. evaluate_mode_change AuthorityRuleEngine_init AUTONOMOUS r
                   ''Transit'' ''Routine'' 200 None = Inr d
                \<and> action_type d = AUTO_SWITCH \<and> target_mode d = HUMAN))
       \<and> (0.6 \<le> autonomous_reliability r \<longrightarrow>
           (\<exists>d. evaluate_mode_change AuthorityRuleEngine_init AUTONOMOUS r
                   ''Transit'' ''Routine'' 200 None = Inr d
                \<and> action_type d = NOTIFY \<and> target_mode d = AUTONOMOUS))"
proof (intro conjI impI)
  assume "autonomous_reliability r < 0.6"
  from rule_B_fires [OF assms this, of LOW "''Transit''"]
  show "\<exists>d. evaluate_mode_change AuthorityRuleEngine_init AUTONOMOUS r
               ''Transit'' ''Routine'' 200 None = Inr d
            \<and> action_type d = AUTO_SWITCH \<and> target_mode d = HUMAN"
    by (auto simp add: evaluate_mode_change_unfold risk_examples)
next
  assume "0.6 \<le> autonomous_reliability r"
  from no_rule_autonomous [OF this, of HUMAN LOW "''Transit''"] assms
  show "\<exists>d. evaluate_mode_change AuthorityRuleEngine_init AUTONOMOUS r
               ''Transit'' ''Routine'' 200 None = Inr d
            \<and> action_type d = NOTIFY \<and> target_mode d = AUTONOMOUS"
    by (simp add: evaluate_mode_change_unfold risk_examples init_fields
          apply_phase_rules_def handle_low_risk_phase_def Let_def)
qed

theorem C2_transit_autonomous_to_human_witness:
  "(\<exists>d. evaluate_mode_change AuthorityRuleEngine_init AUTONOMOUS
           \<lparr>recommended_mode = HUMAN, confidence = 0.7, human_reliability = 0.9,
            autonomous_reliability = 0.55, docking_reliability = None\<rparr>
           ''Transit'' ''Routine'' 200 None = Inr d
        \<and> action_type d = AUTO_SWITCH \<and> target_mode d = HUMAN)
   \<and> (\<exists>d. evaluate_mode_change AuthorityRuleEngine_init AUTONOMOUS
           \<lparr>recommended_mode = HUMAN, confidence = 0.7, human_reliability = 0.9,
            autonomous_reliability = 0.65, docking_reliability = None\<rparr>
           ''Transit'' ''Routine'' 200 None = Inr d
        \<and> action_type d = NOTIFY \<and> target_mode d = AUTONOMOUS)"
  using C2_transit_autonomous_to_human
          [of "\<lparr>recommended_mode = HUMAN, confidence = 0.7, human_reliability = 0.9,
                autonomous_reliability = 0.55, docking_reliability = None\<rparr>"]
        C2_transit_autonomous_to_human
          [of "\<lparr>recommended_mode = HUMAN, confidence = 0.7, human_reliability = 0.9,
                autonomous_reliability = 0.65, docking_reliability = None\<rparr>"]
  by simp

text \<open>At the inputs of the claim itself the action is not Notify and the target is not
  Autonomous.\<close>

theorem C2_counterexample:
  "map_sum id action_type
     (evaluate_mode_change AuthorityRuleEngine_init AUTONOMOUS
        \<lparr>recommended_mode = HUMAN, confidence = 0.7, human_reliability = 0.9,
         autonomous_reliability = 0.55, docking_reliability = None\<rparr>
        ''Transit'' ''Routine'' 200 None) \<noteq> Inr NOTIFY
   \<and> map_sum id target_mode
     (evaluate_mode_change AuthorityRuleEngine_init AUTONOMOUS
        \<lparr>recommended_mode = HUMAN, confidence = 0.7, human_reliability = 0.9,
         autonomous_reliability = 0.55, docking_reliability = None\<rparr>
        ''Transit'' ''Routine'' 200 None) \<noteq> Inr AUTONOMOUS"
  by (simp add: evaluate_mode_change_unfold apply_safety_rules_def init_fields)

subsection \<open>C3: the DockingApproach scenario\<close>

text \<open>
  Claim C3, as amended: in phase \<open>''DockingApproach''\<close> with criticality \<open>''Routine''\<close>,
  no override, current mode Human, recommended mode Autonomous and 200 seconds elapsed,
  the engine answers Block with target Human when the human reliability is at least 0.5;
  below 0.5 the first hard safety rule answers first, with Notify and target Human.
  Autonomous reliability, docking reliability and confidence are arbitrary.
\<close>

theorem C3_docking_approach_blocks_autonomous:
  assumes "recommended_mode r = AUTONOMOUS"
  shows "(0.5 \<le> human_reliability r \<longrightarrow>
           (\<exists>d. evaluate_mode_change AuthorityRuleEngine_init HUMAN r
                   ''DockingApproach'' ''Routine'' 200 None = Inr d
                \<and> action_type d = BLOCK \<and> target_mode d = HUMAN))
       \<and> (human_reliability r < 0.5 \<longrightarrow>
           (\<exists>d. evaluate_mode_change AuthorityRuleEngine_init HUMAN r
                   ''DockingApproach'' ''Routine'' 200 None = Inr d
                \<and> action_type d = NOTIFY \<and> target_mode d = HUMAN))"
proof (intro conjI impI)
  assume "0.5 \<le> human_reliability r"
  from no_rule_human [OF this, of AUTONOMOUS CRITICAL "''DockingApproach''"] assms
  show "\<exists>d. evaluate_mode_change AuthorityRuleEngine_init HUMAN r
               ''DockingApproach'' ''Routine'' 200 None = Inr d
            \<and> action_type d = BLOCK \<and> target_mode d = HUMAN"
    by (simp add: evaluate_mode_change_unfold risk_examples init_fields
          apply_phase_rules_def handle_critical_phase_def)
next
  assume "human_reliability r < 0.5"
  from rule_A_fires [OF this, of "recommended_mode r" "''DockingApproach''"]
  show "\<exists>d. evaluate_mode_change AuthorityRuleEngine_init HUMAN r
               ''DockingApproach'' ''Routine'' 200 None = Inr d
            \<and> action_type d = NOTIFY \<and> target_mode d = HUMAN"
    by (auto simp add: evaluate_mode_change_unfold risk_examples)
qed

theorem C3_docking_approach_blocks_autonomous_witness:
  "(\<exists>d. evaluate_mode_change AuthorityRuleEngine_init HUMAN
           \<lparr>recommended_mode = AUTONOMOUS, confidence = 0.7, human_reliability = 0.8,
            autonomous_reliability = 0.9, docking_reliability = Some 0.4\<rparr>
           ''DockingApproach'' ''Routine'' 200 None = Inr d
        \<and> action_type d = BLOCK \<and> target_mode d = HUMAN)
   \<and> (\<exists>d. evaluate_mode_change AuthorityRuleEngine_init HUMAN
           \<lparr>recommended_mode = AUTONOMOUS, confidence = 0.7, human_reliability = 0.3,
            autonomous_reliability = 0.9, docking_reliability = Some 0.4\<rparr>
           ''DockingApproach'' ''Routine'' 200 None = Inr d
        \<and> action_type d = NOTIFY \<and> target_mode d = HUMAN)"
  using C3_docking_approach_blocks_autonomous
          [of "\<lparr>recommended_mode = AUTONOMOUS, confidence = 0.7, human_reliability = 0.8,
                autonomous_reliability = 0.9, docking_reliability = Some 0.4\<rparr>"]
        C3_docking_approach_blocks_autonomous
          [of "\<lparr>recommended_mode = AUTONOMOUS, confidence = 0.7, human_reliability = 0.3,
                autonomous_reliability = 0.9, docking_reliability = Some 0.4\<rparr>"]
  by simp

text \<open>With human reliability 0.3, inside the range of the claim, the action is Notify,
  not Block.\<close>

theorem C3_counterexample:
  "map_sum id action_type
     (evaluate_mode_change AuthorityRuleEngine_init HUMAN
        \<lparr>recommended_mode = AUTONOMOUS, confidence = 0.7, human_reliability = 0.3,
         autonomous_reliability = 0.9, docking_reliability = None\<rparr>
        ''DockingApproach'' ''Routine'' 200 None) \<noteq> Inr BLOCK"
  by (simp add: evaluate_mode_change_unfold risk_examples apply_safety_rules_def init_fields)

subsection \<open>C4: the second hard safety rule is not held back by the dwell time\<close>

text \<open>
  Claim C4: for every elapsed time, phase and criticality, with no override, current mode
  Autonomous, recommended mode Human and autonomous reliability below 0.6, the engine
  answers AutoSwitch to Human with urgency high. The first hard safety rule needs the
  current mode to be Human, so it never applies here and the theorem does not assume so.
\<close>

theorem C4_rule_B_before_hysteresis:
  assumes "recommended_mode r = HUMAN" and "autonomous_reliability r < 0.6"
  shows "\<exists>d. evaluate_mode_change AuthorityRuleEngine_init AUTONOMOUS r phase criticality
                elapsed None = Inr d
             \<and> action_type d = AUTO_SWITCH \<and> target_mode d = HUMAN \<and> urgency d = ''high''"
  using rule_B_fires [OF assms, of "spec_risk_level phase criticality" phase]
  by (auto simp add: evaluate_mode_change_unfold)

theorem C4_rule_B_before_hysteresis_witness:
  "\<exists>d. evaluate_mode_change AuthorityRuleEngine_init AUTONOMOUS
          \<lparr>recommended_mode = HUMAN, confidence = 0.7, human_reliability = 0.9,
           autonomous_reliability = 0.5, docking_reliability = None\<rparr>
          ''Inspection'' ''Routine'' 30 None = Inr d
       \<and> action_type d = AUTO_SWITCH \<and> target_mode d = HUMAN \<and> urgency d = ''high''"
  by (rule C4_rule_B_before_hysteresis) simp_all

subsection \<open>C5: hysteresis\<close>

text \<open>
  Claim C5: with no override, when neither hard safety rule answers (the call of
  \<open>apply_safety_rules\<close> at the risk level of the phase returns \<open>None\<close>), fewer than 120
  seconds have elapsed and the recommended mode differs from the current one, the engine
  answers None with the current mode as target, and the entry \<open>time_remaining\<close> of
  the reasons holds 120 minus the elapsed seconds.
\<close>

theorem C5_hysteresis:
  assumes "get_risk_level phase criticality = Inr risk"
    and "apply_safety_rules AuthorityRuleEngine_init cur (recommended_mode r) risk phase r = None"
    and "elapsed < 120"
    and "recommended_mode r \<noteq> cur"
  shows "\<exists>d. evaluate_mode_change AuthorityRuleEngine_init cur r phase criticality
                elapsed None = Inr d
             \<and> action_type d = NONE \<and> target_mode d = cur
             \<and> map_of (reasons d) ''time_remaining'' = Some (PFloat (120 - elapsed))"
proof -
  from assms(1) have "risk = spec_risk_level phase criticality"
    by (simp add: get_risk_level_spec)
  with assms(2-4) show ?thesis
    by (simp add: evaluate_mode_change_unfold init_fields)
qed

theorem C5_hysteresis_witness:
  "\<exists>d. evaluate_mode_change AuthorityRuleEngine_init HUMAN
          \<lparr>recommended_mode = AUTONOMOUS, confidence = 0.7, human_reliability = 0.85,
           autonomous_reliability = 0.8, docking_reliability = None\<rparr>
          ''Transit'' ''Routine'' 30 None = Inr d
       \<and> action_type d = NONE \<and> target_mode d = HUMAN
       \<and> map_of (reasons d) ''time_remaining'' = Some (PFloat 90)"
proof -
  have 1: "get_risk_level ''Transit'' ''Routine'' = Inr LOW"
    by (simp add: get_risk_level_spec risk_examples)
  have 2: "apply_safety_rules AuthorityRuleEngine_init HUMAN
             (recommended_mode \<lparr>recommended_mode = AUTONOMOUS, confidence = 0.7,
                human_reliability = 0.85, autonomous_reliability = 0.8,
                docking_reliability = None\<rparr>) LOW ''Transit''
             \<lparr>recommended_mode = AUTONOMOUS, confidence = 0.7, human_reliability = 0.85,
              autonomous_reliability = 0.8, docking_reliability = None\<rparr> = None"
    by (simp add: apply_safety_rules_def)
  show ?thesis
    using C5_hysteresis [OF 1 2, of 30] by simp
qed

subsection \<open>C6: the risk level\<close>

text \<open>
  Claim C6: for every phase and criticality string, \<open>get_risk_level\<close> returns, without
  raising, the level whose value is the base value of the phase plus the modifier of the
  criticality, clamped at the value of Critical; base and modifier are the tables of the
  specification, with Medium and 0 for unrecognised strings.
\<close>

theorem C6_risk_level:
  "get_risk_level phase criticality =
     Inr (spec_level_of (min (risk_value (spec_base phase) + spec_modifier criticality)
                             (risk_value CRITICAL)))"
  using get_risk_level_spec [of phase criticality] by (simp only: spec_risk_level_def)

theorem C6_risk_level_witness:
  "get_risk_level ''Inspection'' ''Critical'' = Inr CRITICAL
   \<and> get_risk_level ''Mapping'' ''Urgent'' = Inr MEDIUM"
  using C6_risk_level [of "''Inspection''" "''Critical''"]
        C6_risk_level [of "''Mapping''" "''Urgent''"]
  by (simp add: spec_base_def spec_modifier_def)

subsection \<open>C7: every call returns a decision\<close>

text \<open>
  Claim C7, as amended: for every engine, current mode, recommendation, phase,
  criticality, elapsed time and optional override, \<open>evaluate_mode_change\<close> returns a
  decision and raises nothing (neither the \<^verbatim>\<open>ValueError\<close> of the enumeration's
  constructor nor the \<^verbatim>\<open>KeyError\<close> of the urgency table). The urgency of the decision
  is one of the four urgency words; its time-out is absent or 30, 45 or 60 seconds, and
  present whenever the action is Ask; and whenever the action is not None, the message and
  the explanation are non-empty strings and the reasons are a non-empty dictionary. A
  decision has an empty message, an empty explanation or empty reasons only when there is
  no override, the recommended mode differs from the current one and the minimum mode
  duration has passed: these are the last returns of the phase handlers, whose action is
  None.
\<close>

theorem C7_decision_fields:
  "\<exists>d. evaluate_mode_change self cur r phase criticality elapsed override = Inr d
       \<and> urgency d \<in> {''low'', ''medium'', ''high'', ''critical''}
       \<and> timeout_seconds d \<in> {None, Some 30, Some 45, Some 60}
       \<and> (action_type d = ASK \<longrightarrow> timeout_seconds d \<noteq> None)
       \<and> (action_type d \<noteq> NONE \<longrightarrow>
             \<not> str_is_empty (message d) \<and> \<not> str_is_empty (explanation d)
             \<and> reasons d \<noteq> [])
       \<and> (str_is_empty (message d) \<or> str_is_empty (explanation d) \<or> reasons d = [] \<longrightarrow>
             override = None \<and> recommended_mode r \<noteq> cur
             \<and> \<not> elapsed < minimum_mode_duration self)"
proof -
  from evaluate_mode_change_total [of self cur r phase criticality elapsed override]
    evaluate_mode_change_fields [of self cur r phase criticality elapsed override]
  obtain d where d: "evaluate_mode_change self cur r phase criticality elapsed override = Inr d"
    and a: "urgency d \<in> {''low'', ''medium'', ''high'', ''critical''}"
      "timeout_seconds d \<in> {None, Some 30, Some 45, Some 60}"
      "action_type d = ASK \<longrightarrow> timeout_seconds d \<noteq> None"
      "action_type d \<noteq> NONE \<longrightarrow>
         \<not> str_is_empty (message d) \<and> \<not> str_is_empty (explanation d) \<and> reasons d \<noteq> []"
    by auto
  from evaluate_mode_change_blank [OF d]
  have "str_is_empty (message d) \<or> str_is_empty (explanation d) \<or> reasons d = [] \<longrightarrow>
          override = None \<and> recommended_mode r \<noteq> cur
          \<and> \<not> elapsed < minimum_mode_duration self"
    by blast
  with d a show ?thesis by blast
qed

theorem C7_decision_fields_witness:
  "\<exists>d. evaluate_mode_change AuthorityRuleEngine_init AUTONOMOUS
          \<lparr>recommended_mode = HUMAN, confidence = 0.7, human_reliability = 0.9,
           autonomous_reliability = 0.7, docking_reliability = None\<rparr>
          ''Inspection'' ''Routine'' 200 None = Inr d
       \<and> action_type d = ASK
       \<and> urgency d \<in> {''low'', ''medium'', ''high'', ''critical''}
       \<and> timeout_seconds d \<noteq> None
       \<and> \<not> str_is_empty (message d) \<and> \<not> str_is_empty (explanation d)
       \<and> reasons d \<noteq> []"
proof -
  let ?r = "\<lparr>recommended_mode = HUMAN, confidence = 0.7, human_reliability = 0.9,
           autonomous_reliability = 0.7, docking_reliability = None\<rparr>"
  let ?X = "evaluate_mode_change AuthorityRuleEngine_init AUTONOMOUS ?r
          ''Inspection'' ''Routine'' 200 None"
  have a: "map_sum id action_type ?X = Inr ASK"
    by (simp add: evaluate_mode_change_unfold spec_risk_level_def spec_base_def
          spec_modifier_def apply_safety_rules_def init_fields apply_phase_rules_def
          handle_medium_risk_phase_def Let_def)
  from C7_decision_fields
         [of AuthorityRuleEngine_init AUTONOMOUS ?r "''Inspection''" "''Routine''" 200 None]
  obtain d where d: "?X = Inr d"
    and rest: "urgency d \<in> {''low'', ''medium'', ''high'', ''critical''}"
      "action_type d = ASK \<longrightarrow> timeout_seconds d \<noteq> None"
      "action_type d \<noteq> NONE \<longrightarrow>
         \<not> str_is_empty (message d) \<and> \<not> str_is_empty (explanation d) \<and> reasons d \<noteq> []"
    by blast
  from a d have "action_type d = ASK" by simp
  with d rest show ?thesis by simp
qed

text \<open>The last branch of the medium-risk handler returns an empty message, an empty
  explanation, no reasons and no time-out.\<close>

theorem C7_counterexample:
  "map_sum id message
     (evaluate_mode_change AuthorityRuleEngine_init SHARED
        \<lparr>recommended_mode = HUMAN, confidence = 0.7, human_reliability = 0.85,
         autonomous_reliability = 0.8, docking_reliability = None\<rparr>
        ''Inspection'' ''Routine'' 200 None) = Inr []
   \<and> map_sum id explanation
     (evaluate_mode_change AuthorityRuleEngine_init SHARED
        \<lparr>recommended_mode = HUMAN, confidence = 0.7, human_reliability = 0.85,
         autonomous_reliability = 0.8, docking_reliability = None\<rparr>
        ''Inspection'' ''Routine'' 200 None) = Inr []
   \<and> map_sum id reasons
     (evaluate_mode_change AuthorityRuleEngine_init SHARED
        \<lparr>recommended_mode = HUMAN, confidence = 0.7, human_reliability = 0.85,
         autonomous_reliability = 0.8, docking_reliability = None\<rparr>
        ''Inspection'' ''Routine'' 200 None) = Inr []
   \<and> map_sum id timeout_seconds
     (evaluate_mode_change AuthorityRuleEngine_init SHARED
        \<lparr>recommended_mode = HUMAN, confidence = 0.7, human_reliability = 0.85,
         autonomous_reliability = 0.8, docking_reliability = None\<rparr>
        ''Inspection'' ''Routine'' 200 None) = Inr None"
  by (simp add: evaluate_mode_change_unfold spec_risk_level_def spec_base_def
        spec_modifier_def apply_safety_rules_def init_fields apply_phase_rules_def
        handle_medium_risk_phase_def)

subsection \<open>C9: tokens outside the mode vocabulary\<close>

text \<open>
  Claim C9, as amended: a recommendation token that, in lower case, is none of
  \<open>autonomous\<close>, \<open>human\<close>, \<open>shared\<close> is stored as the recommendation Shared; an
  operator-override token that is none of them is dropped: the callback returns without
  calling the rule engine.
\<close>

theorem C9_unmapped_tokens:
  assumes "map_of mode_map (lower token) = None"
  shows "latest_bn_recommendation (bn_recommendation_callback node token) = Some SHARED
       \<and> operator_override_callback node token = None"
  using assms
  by (simp add: bn_recommendation_callback_def operator_override_callback_def dict_get_def)

theorem C9_unmapped_tokens_witness:
  "map_of mode_map (lower ''Manual'') = None
   \<and> latest_bn_recommendation (bn_recommendation_callback ModeArbitratorNode_init ''Manual'')
       = Some SHARED
   \<and> operator_override_callback ModeArbitratorNode_init ''Manual'' = None"
proof -
  have h: "map_of mode_map (lower ''Manual'') = None"
    by (simp add: mode_map_def lower_def lower_char_def)
  show ?thesis using h C9_unmapped_tokens [OF h, of ModeArbitratorNode_init] by simp
qed

text \<open>The override token \<open>manual\<close> is outside the vocabulary, and what the callback does
  with it is not what it does with an override towards Shared.\<close>

theorem C9_counterexample:
  "map_of mode_map (lower ''manual'') = None
   \<and> operator_override_callback ModeArbitratorNode_init ''manual''
       \<noteq> Some (process_operator_override ModeArbitratorNode_init SHARED)"
  by (simp add: operator_override_callback_def mode_map_def lower_def lower_char_def)

subsection \<open>C10: an action without transition names the current mode\<close>

text \<open>
  Claim C10: for every input, with or without an operator override, a returned decision
  whose action is None, Notify or Block has the current mode as its target.
\<close>

theorem C10_no_transition_keeps_mode:
  assumes "evaluate_mode_change self cur r phase criticality elapsed override = Inr d"
    and "action_type d \<in> {NONE, NOTIFY, BLOCK}"
  shows "target_mode d = cur"
  using evaluate_mode_change_total [of self cur r phase criticality elapsed override] assms
  by auto

theorem C10_no_transition_keeps_mode_witness:
  "action_type (projr (evaluate_mode_change AuthorityRuleEngine_init HUMAN
      \<lparr>recommended_mode = AUTONOMOUS, confidence = 0.7, human_reliability = 0.85,
       autonomous_reliability = 0.8, docking_reliability = None\<rparr>
      ''Docking'' ''Routine'' 200 None)) \<in> {NONE, NOTIFY, BLOCK}
   \<and> target_mode (projr (evaluate_mode_change AuthorityRuleEngine_init HUMAN
      \<lparr>recommended_mode = AUTONOMOUS, confidence = 0.7, human_reliability = 0.85,
       autonomous_reliability = 0.8, docking_reliability = None\<rparr>
      ''Docking'' ''Routine'' 200 None)) = HUMAN"
proof -
  let ?X = "evaluate_mode_change AuthorityRuleEngine_init HUMAN
      \<lparr>recommended_mode = AUTONOMOUS, confidence = 0.7, human_reliability = 0.85,
       autonomous_reliability = 0.8, docking_reliability = None\<rparr>
      ''Docking'' ''Routine'' 200 None"
  have a: "?X = Inr (handle_critical_phase AuthorityRuleEngine_init HUMAN AUTONOMOUS ''Docking''
      \<lparr>recommended_mode = AUTONOMOUS, confidence = 0.7, human_reliability = 0.85,
       autonomous_reliability = 0.8, docking_reliability = None\<rparr>)"
    by (simp add: evaluate_mode_change_unfold risk_examples apply_safety_rules_def init_fields
          apply_phase_rules_def)
  have b: "?X = Inr (projr ?X)" using a by simp
  have c: "action_type (projr ?X) \<in> {NONE, NOTIFY, BLOCK}"
    using a by (simp add: handle_critical_phase_def)
  from C10_no_transition_keeps_mode [OF b c] c show ?thesis by simp
qed

end
